theory Spec2Isabelle
  imports Complex_Main "HOL-Library.Char_ord" "HOL-Library.List_Lexorder"
    "HOL-Library.Product_Lexorder" "HOL-Library.Option_ord"
begin

section \<open>The query engine of \<open>querytgdb/utils/parser.py\<close>\<close>

text \<open>
  The engine works on pandas data frames. A \<open>TargetFrame\<close> is a data frame with two
  pieces of metadata, \<open>include\<close> and \<open>filter_string\<close>. Its row index holds target
  gene identifiers, its column index holds triples (transcription factor, analysis id,
  attribute). A cell is a number (\<open>Pvalue\<close>, \<open>Log2FC\<close>), a short string (\<open>EDGE\<close>,
  \<open>ADD_EDGES\<close>) or missing (\<open>NaN\<close>, here \<open>None\<close>). The analysis level of the
  placeholder column of an empty fetch is \<open>NaN\<close>, here \<open>None\<close>.

  The frame is kept row-major: every row carries its label and one cell per column.
\<close>

subsection \<open>Data model\<close>

type_synonym gene = string

type_synonym label = "string \<times> int option \<times> string"

datatype cell = Num rat | Txt string

type_synonym row = "gene \<times> cell option list"

record TargetFrame =
  columns :: "label list"
  rows :: "row list"
  included :: bool
  filter_string :: string

datatype error =
    QueryError string
  | ValueError string
  | KeyError string
  | IndexError
  | TypeError

definition tf_of :: "label \<Rightarrow> string" where
  "tf_of c = fst c"

definition analysis_of :: "label \<Rightarrow> int option" where
  "analysis_of c = fst (snd c)"

definition attr_of :: "label \<Rightarrow> string" where
  "attr_of c = snd (snd c)"

definition index :: "TargetFrame \<Rightarrow> gene list" where
  "index df = map fst (rows df)"

text \<open>\<open>TargetFrame(columns=...)\<close>: no rows, \<open>include=True\<close>, empty filter string.\<close>

definition new_frame :: "label list \<Rightarrow> row list \<Rightarrow> TargetFrame" where
  "new_frame cs rs = \<lparr>columns = cs, rows = rs, included = True, filter_string = []\<rparr>"

text \<open>\<open>df.empty\<close>: one of the two axes has length 0.\<close>

definition is_empty :: "TargetFrame \<Rightarrow> bool" where
  "is_empty df \<longleftrightarrow> columns df = [] \<or> rows df = []"

text \<open>\<open>df.size\<close>: the number of cells.\<close>

definition size_of :: "TargetFrame \<Rightarrow> nat" where
  "size_of df = length (rows df) * length (columns df)"

text \<open>The cells of one column, top to bottom; a row too short has a missing cell there.\<close>

definition cell_at :: "row \<Rightarrow> nat \<Rightarrow> cell option" where
  "cell_at r i = (if i < length (snd r) then snd r ! i else None)"

definition column_cells :: "TargetFrame \<Rightarrow> nat \<Rightarrow> cell option list" where
  "column_cells df i = map (\<lambda>r. cell_at r i) (rows df)"

text \<open>Selecting columns by position (pandas \<open>take\<close> on axis 1) keeps rows and metadata.\<close>

definition take_columns :: "nat list \<Rightarrow> TargetFrame \<Rightarrow> TargetFrame" where
  "take_columns is df =
     df\<lparr>columns := map (\<lambda>i. columns df ! i) is,
        rows := map (\<lambda>r. (fst r, map (\<lambda>i. cell_at r i) is)) (rows df)\<rparr>"

text \<open>Selecting rows by a predicate on the row label (\<open>df.loc[mask, :]\<close>).\<close>

definition select_rows :: "(gene \<Rightarrow> bool) \<Rightarrow> TargetFrame \<Rightarrow> TargetFrame" where
  "select_rows p df = df\<lparr>rows := filter (\<lambda>r. p (fst r)) (rows df)\<rparr>"

subsection \<open>Joining two frames on the row index\<close>

text \<open>
  \<open>prec.merge(succ, how=..., left_index=True, right_index=True, suffixes=(l, r))\<close>.
  Column labels found on both sides are renamed: pandas maps the renamer over every level
  value of a label, and a level value is renamed when it is found in the overlap, a lookup
  that goes by the first level. So the transcription factor of an overlapping label gets
  the suffix, an attribute gets it only if it is spelt like such a transcription factor,
  and the analysis id is left alone.
\<close>

definition overlap :: "label list \<Rightarrow> label list \<Rightarrow> label list" where
  "overlap ls rs = filter (\<lambda>c. c \<in> set rs) ls"

definition renamer :: "label list \<Rightarrow> string \<Rightarrow> label \<Rightarrow> label" where
  "renamer to_rename suffix c =
     (let hit = (\<lambda>x. x \<in> set (map tf_of to_rename))
      in (if hit (tf_of c) then tf_of c @ suffix else tf_of c,
          analysis_of c,
          if hit (attr_of c) then attr_of c @ suffix else attr_of c))"

definition items_overlap_with_suffix ::
  "label list \<Rightarrow> string \<Rightarrow> label list \<Rightarrow> string \<Rightarrow> label list \<times> label list" where
  "items_overlap_with_suffix left lsuffix right rsuffix =
     (let to_rename = overlap left right
      in if to_rename = [] then (left, right)
         else (map (renamer to_rename lsuffix) left, map (renamer to_rename rsuffix) right))"

datatype how = inner | outer

definition nan_cells :: "label list \<Rightarrow> cell option list" where
  "nan_cells cs = map (\<lambda>_. None) cs"

definition matching :: "TargetFrame \<Rightarrow> gene \<Rightarrow> cell option list list" where
  "matching df g = map snd (filter (\<lambda>r. fst r = g) (rows df))"

definition or_nan :: "label list \<Rightarrow> cell option list list \<Rightarrow> cell option list list" where
  "or_nan cs xs = (if xs = [] then [nan_cells cs] else xs)"

text \<open>
  The inner join keeps the keys of the left frame that the right frame has, in the order of
  the left; the outer join has the sorted union of the keys and fills the side that lacks a
  key with missing cells. Keys that repeat give one row per pair, as in pandas. The result
  is a fresh \<open>TargetFrame\<close>: \<open>include=True\<close>, empty filter string.
\<close>

definition inner_rows :: "TargetFrame \<Rightarrow> TargetFrame \<Rightarrow> row list" where
  "inner_rows prec succ =
     concat (map (\<lambda>r. map (\<lambda>ws. (fst r, snd r @ ws)) (matching succ (fst r))) (rows prec))"

definition outer_rows :: "TargetFrame \<Rightarrow> TargetFrame \<Rightarrow> row list" where
  "outer_rows prec succ =
     concat (map (\<lambda>g. concat (map (\<lambda>vs. map (\<lambda>ws. (g, vs @ ws))
                                           (or_nan (columns succ) (matching succ g)))
                                 (or_nan (columns prec) (matching prec g))))
                 (sort (remdups (index prec @ index succ))))"

definition merge :: "TargetFrame \<Rightarrow> TargetFrame \<Rightarrow> how \<Rightarrow> string \<times> string \<Rightarrow> TargetFrame" where
  "merge prec succ h suffixes =
     (let (lc, rc) = items_overlap_with_suffix (columns prec) (fst suffixes)
                                               (columns succ) (snd suffixes)
      in new_frame (lc @ rc)
           (case h of inner \<Rightarrow> inner_rows prec succ | outer \<Rightarrow> outer_rows prec succ))"

text \<open>
  \<open>get_suffix\<close>: each side is suffixed with its filter string in double quotes and a fresh
  \<open>uuid4()\<close>. The two tokens are drawn by the caller and passed in.
\<close>

definition get_suffix :: "TargetFrame \<Rightarrow> TargetFrame \<Rightarrow> string \<times> string \<Rightarrow> string \<times> string" where
  "get_suffix prec succ u =
     ('' \"'' @ filter_string prec @ ''\" '' @ fst u,
      '' \"'' @ filter_string succ @ ''\" '' @ snd u)"

subsection \<open>AND, OR and NOT on two evaluated operands\<close>

text \<open>
  Lines 464 to 494 of \<open>get_tf\<close>: the frame chosen by the include flags of the two
  operands, and the filter string of the combination.
\<close>

definition and_or_join ::
  "string \<Rightarrow> string \<times> string \<Rightarrow> TargetFrame \<Rightarrow> TargetFrame \<Rightarrow> TargetFrame \<times> string" where
  "and_or_join oper u prec succ =
     (if oper = ''and'' then
        (if included prec \<and> included succ then
           merge prec succ inner (get_suffix prec succ u)
         else if \<not> included prec \<and> included succ then
           select_rows (\<lambda>g. g \<notin> set (index prec)) succ
         else if included prec \<and> \<not> included succ then
           select_rows (\<lambda>g. g \<notin> set (index succ)) prec
         else
           (merge prec succ outer (get_suffix prec succ u))\<lparr>included := False\<rparr>,
         filter_string prec @ '' and '' @ filter_string succ)
      else
        (if included prec \<and> included succ then
           merge prec succ outer (get_suffix prec succ u)
         else if \<not> included prec \<and> included succ then succ
         else if included prec \<and> \<not> included succ then prec
         else
           (merge prec succ inner (get_suffix prec succ u))\<lparr>included := False\<rparr>,
         filter_string prec @ '' or '' @ filter_string succ))"

text \<open>
  \<open>df.groupby(level=[0, 1], axis=1).filter(lambda x: x.notna().any(axis=None))\<close>:
  the columns are grouped by (transcription factor, analysis); a group stays when one of its
  cells is present. pandas leaves a group whose key has a \<open>NaN\<close> out of the grouping, so
  such columns go too. The surviving columns keep their order.
\<close>

definition group_of :: "label \<Rightarrow> string \<times> int option" where
  "group_of c = (tf_of c, analysis_of c)"

definition group_positions :: "TargetFrame \<Rightarrow> string \<times> int option \<Rightarrow> nat list" where
  "group_positions df k =
     filter (\<lambda>i. group_of (columns df ! i) = k) [0 ..< length (columns df)]"

definition group_notna_any :: "TargetFrame \<Rightarrow> string \<times> int option \<Rightarrow> bool" where
  "group_notna_any df k =
     list_ex (\<lambda>i. list_ex (\<lambda>v. v \<noteq> None) (column_cells df i)) (group_positions df k)"

definition filter_groups :: "TargetFrame \<Rightarrow> TargetFrame" where
  "filter_groups df =
     take_columns
       (filter (\<lambda>i. analysis_of (columns df ! i) \<noteq> None \<and>
                     group_notna_any df (group_of (columns df ! i)))
               [0 ..< length (columns df)])
       df"

text \<open>
  Lines 496 to 503. The source guards the grouped filter with \<open>except IndexError\<close> and
  then starts from an empty frame (which has \<open>include=True\<close>). When pandas raises there
  is a fact of the library, not of this program: it is the parameter \<open>raises\<close>.
\<close>

definition drop_empty_groups :: "(TargetFrame \<Rightarrow> bool) \<Rightarrow> TargetFrame \<times> string \<Rightarrow> TargetFrame" where
  "drop_empty_groups raises p =
     (let df = (if raises (fst p) then new_frame [] [] else filter_groups (fst p))
      in df\<lparr>filter_string := snd p\<rparr>)"

definition and_or :: "(TargetFrame \<Rightarrow> bool) \<Rightarrow> string \<Rightarrow> string \<times> string
    \<Rightarrow> TargetFrame \<Rightarrow> TargetFrame \<Rightarrow> TargetFrame" where
  "and_or raises oper u prec succ = drop_empty_groups raises (and_or_join oper u prec succ)"

text \<open>Lines 506 to 509: NOT flips the flag and prefixes the filter string.\<close>

definition not_op :: "TargetFrame \<Rightarrow> TargetFrame" where
  "not_op succ = succ\<lparr>included := \<not> included succ,
                       filter_string := ''not '' @ filter_string succ\<rparr>"

subsection \<open>Strings and Python's \<open>float\<close>\<close>

definition lower_char :: "char \<Rightarrow> char" where
  "lower_char c = (if CHR ''A'' \<le> c \<and> c \<le> CHR ''Z'' then char_of (of_char c + (32::nat)) else c)"

definition upper_char :: "char \<Rightarrow> char" where
  "upper_char c = (if CHR ''a'' \<le> c \<and> c \<le> CHR ''z'' then char_of (of_char c - (32::nat)) else c)"

definition lower :: "string \<Rightarrow> string" where
  "lower s = map lower_char s"

definition upper :: "string \<Rightarrow> string" where
  "upper s = map upper_char s"

text \<open>Case-insensitive equality, as \<open>__iexact\<close> in a database lookup.\<close>

definition iexact :: "string \<Rightarrow> string \<Rightarrow> bool" where
  "iexact a b \<longleftrightarrow> lower a = lower b"

text \<open>
  \<open>re.match(r'^word$', key, flags=re.I)\<close> for a lower-case word: the whole key, where
  \<open>$\<close> also matches before one final newline.
\<close>

definition re_match_word :: "string \<Rightarrow> string \<Rightarrow> bool" where
  "re_match_word word key \<longleftrightarrow> lower key = word \<or> lower key = word @ [CHR 0x0A]"

text \<open>
  \<open>float(value)\<close> on a string. The value is an infinity, a NaN, or a decimal numeral that
  is read here as the rational it denotes (the rounding to a double is not modelled).
  A character is a code point below 256. Python first turns the spaces of Unicode above
  ASCII (here 0x85 and 0xA0) into blanks, then strips the white space of C (tab, line feed,
  vertical tab, form feed, carriage return, blank) from both ends; the separators 0x1C to
  0x1F are not stripped. What is left must be a sign, then \<open>inf\<close>, \<open>infinity\<close> or
  \<open>nan\<close> in any case, or digits with single underscores between them, a point and an
  exponent. Any other string raises \<open>ValueError\<close>: \<open>None\<close>.
\<close>

datatype pyfloat = Finite rat | PosInf | NegInf | NaN

definition is_space :: "char \<Rightarrow> bool" where
  "is_space c \<longleftrightarrow> c \<in> set [CHR 0x09, CHR 0x0A, CHR 0x0B, CHR 0x0C, CHR 0x0D, CHR 0x20]"

definition space_to_ascii :: "char \<Rightarrow> char" where
  "space_to_ascii c = (if c = CHR 0x85 \<or> c = CHR 0xA0 then CHR 0x20 else c)"

definition strip :: "string \<Rightarrow> string" where
  "strip s = rev (dropWhile is_space (rev (dropWhile is_space s)))"

definition is_digit :: "char \<Rightarrow> bool" where
  "is_digit c \<longleftrightarrow> CHR ''0'' \<le> c \<and> c \<le> CHR ''9''"

definition digit_value :: "char \<Rightarrow> nat" where
  "digit_value c = of_char c - 48"

text \<open>\<open>digitpart ::= digit (["_"] digit)*\<close>: the digits read and the rest of the string.\<close>

fun digits_loop :: "string \<Rightarrow> string \<times> string" where
  "digits_loop [] = ([], [])"
| "digits_loop (c # cs) =
     (if is_digit c then (case digits_loop cs of (ds, r) \<Rightarrow> (c # ds, r))
      else if c = CHR ''_'' \<and> cs \<noteq> [] \<and> is_digit (hd cs) then digits_loop cs
      else ([], c # cs))"

definition digitpart :: "string \<Rightarrow> (string \<times> string) option" where
  "digitpart s = (case s of [] \<Rightarrow> None
                  | c # cs \<Rightarrow> if is_digit c then Some (digits_loop s) else None)"

definition nat_of_digits :: "string \<Rightarrow> nat" where
  "nat_of_digits ds = foldl (\<lambda>n c. 10 * n + digit_value c) 0 ds"

text \<open>\<open>number ::= [digitpart] "." digitpart | digitpart ["."]\<close>, as mantissa and scale.\<close>

definition number :: "string \<Rightarrow> ((nat \<times> nat) \<times> string) option" where
  "number s =
     (case digitpart s of
        None \<Rightarrow>
          (case s of
             c # cs \<Rightarrow>
               (if c = CHR ''.'' then
                  (case digitpart cs of
                     None \<Rightarrow> None
                   | Some (fs, r) \<Rightarrow> Some ((nat_of_digits fs, length fs), r))
                else None)
           | [] \<Rightarrow> None)
      | Some (ds, r) \<Rightarrow>
          (case r of
             c # cs \<Rightarrow>
               (if c = CHR ''.'' then
                  (case digitpart cs of
                     None \<Rightarrow> Some ((nat_of_digits ds, 0), cs)
                   | Some (fs, r') \<Rightarrow> Some ((nat_of_digits (ds @ fs), length fs), r'))
                else Some ((nat_of_digits ds, 0), r))
           | [] \<Rightarrow> Some ((nat_of_digits ds, 0), [])))"

text \<open>\<open>exponent ::= ("e" | "E") [sign] digitpart\<close>, at the end of the string.\<close>

definition exponent :: "string \<Rightarrow> int option" where
  "exponent s =
     (case s of
        [] \<Rightarrow> Some 0
      | c # cs \<Rightarrow>
          (if lower_char c = CHR ''e'' then
             (let (neg, ds) = (case cs of
                                 d # ds \<Rightarrow> if d = CHR ''-'' then (True, ds)
                                           else if d = CHR ''+'' then (False, ds)
                                           else (False, cs)
                               | [] \<Rightarrow> (False, cs))
              in case digitpart ds of
                   Some (es, []) \<Rightarrow> Some (if neg then - int (nat_of_digits es)
                                            else int (nat_of_digits es))
                 | _ \<Rightarrow> None)
           else None))"

definition scale10 :: "rat \<Rightarrow> int \<Rightarrow> rat" where
  "scale10 x e = (if 0 \<le> e then x * 10 ^ nat e else x / 10 ^ nat (- e))"

definition absfloatvalue :: "string \<Rightarrow> pyfloat option" where
  "absfloatvalue s =
     (if lower s = ''inf'' \<or> lower s = ''infinity'' then Some PosInf
      else if lower s = ''nan'' then Some NaN
      else case number s of
             None \<Rightarrow> None
           | Some ((m, k), r) \<Rightarrow>
               (case exponent r of
                  None \<Rightarrow> None
                | Some e \<Rightarrow> Some (Finite (scale10 (of_nat m) (e - int k)))))"

definition negate :: "pyfloat \<Rightarrow> pyfloat" where
  "negate v = (case v of Finite x \<Rightarrow> Finite (- x) | PosInf \<Rightarrow> NegInf
               | NegInf \<Rightarrow> PosInf | NaN \<Rightarrow> NaN)"

definition float :: "string \<Rightarrow> pyfloat option" where
  "float value =
     (case strip (map space_to_ascii value) of
        [] \<Rightarrow> None
      | c # cs \<Rightarrow>
          (if c = CHR ''-'' then map_option negate (absfloatvalue cs)
           else if c = CHR ''+'' then absfloatvalue cs
           else absfloatvalue (c # cs)))"

text \<open>
  The six comparisons of a cell with the coerced value. A missing cell is a \<open>NaN\<close>:
  every comparison with it is false but \<open>!=\<close>. The same holds for a \<open>NaN\<close> value.
\<close>

definition compare_rat :: "string \<Rightarrow> rat \<Rightarrow> rat \<Rightarrow> bool" where
  "compare_rat oper x y =
     (if oper = ''='' then x = y
      else if oper = ''>='' then x \<ge> y
      else if oper = ''<='' then x \<le> y
      else if oper = ''>'' then x > y
      else if oper = ''<'' then x < y
      else x \<noteq> y)"

definition compare_float :: "string \<Rightarrow> rat \<Rightarrow> pyfloat \<Rightarrow> bool" where
  "compare_float oper x v =
     (case v of
        Finite y \<Rightarrow> compare_rat oper x y
      | PosInf \<Rightarrow> oper \<in> set [''<='', ''<'', ''!='']
      | NegInf \<Rightarrow> oper \<in> set [''>='', ''>'', ''!='']
      | NaN \<Rightarrow> oper = ''!='')"

subsection \<open>The collaborators: the database tables the engine reads\<close>

text \<open>
  Each table is the list of rows its queries return. A foreign key is stored with the
  gene identifier it leads to, as the \<open>values_list\<close> calls of the source ask for it.
\<close>

record Annotation =
  anno_id :: int
  gene_id :: string
  fullname :: string
  gene_family :: string
  gene_type :: string
  gene_name :: string

record Analysis =
  analysis_id :: int
  tf_id :: int
  tf_gene_id :: string

record Database =
  annotation_tbl :: "Annotation list"
  analysis_tbl :: "Analysis list"
  analysisdata_tbl :: "(int \<times> string \<times> string) list"
  interaction_tbl :: "(string \<times> int) list"
  regulation_tbl :: "(int \<times> string \<times> rat option \<times> rat option) list"
  edgetype_tbl :: "(int \<times> string) list"
  edgedata_tbl :: "(int \<times> int \<times> int) list"

subsection \<open>Parse results\<close>

text \<open>
  A \<open>pyparsing.ParseResults\<close> is a list of tokens; a token is a string or a nested
  \<open>ParseResults\<close>. Two kinds of group carry a name the evaluator asks for: the
  bracketed \<open>modifier\<close>, and the condition \<open>mod\<close> with its \<open>key\<close>, \<open>oper\<close> and
  \<open>value\<close>. Keywords are plain strings among the tokens.
\<close>

datatype pr =
    Str string
  | Mod string string string
  | Modifier "pr list"
  | Group "pr list"

definition items :: "pr \<Rightarrow> pr list" where
  "items q = (case q of Str s \<Rightarrow> [] | Mod k oper v \<Rightarrow> [Str k, Str oper, Str v]
              | Modifier xs \<Rightarrow> xs | Group xs \<Rightarrow> xs)"

definition is_modifier :: "pr \<Rightarrow> bool" where
  "is_modifier item = (case item of Modifier xs \<Rightarrow> True | _ \<Rightarrow> False)"

fun join :: "string \<Rightarrow> string list \<Rightarrow> string" where
  "join sep [] = []"
| "join sep [x] = x"
| "join sep (x # y # ys) = x @ sep @ join sep (y # ys)"

fun mod_to_str :: "pr \<Rightarrow> string" where
  "mod_to_str (Str s) = s"
| "mod_to_str (Mod k oper v) = join '' '' [k, oper, v]"
| "mod_to_str (Modifier xs) = join '' '' (map mod_to_str xs)"
| "mod_to_str (Group xs) = join '' '' (map mod_to_str xs)"

text \<open>The evaluation stacks hold tokens not yet evaluated and values already computed.\<close>

datatype 'v slot = Tok pr | Val 'v

fun slot_size :: "'v slot \<Rightarrow> nat" where
  "slot_size (Tok q) = size q"
| "slot_size (Val v) = 0"

subsection \<open>The modifier evaluator\<close>

text \<open>
  A mask has one truth value per cell of the frame it was computed from, row by row. The
  comparators are applied to one column group at a time (\<open>groupby(level=[0, 1], axis=1)\<close>)
  and give one truth value per row, which holds for every column of the group. A group
  whose analysis is \<open>NaN\<close> is not visited, and its columns are masked out.
\<close>

type_synonym mask = "bool list list"

definition column_position :: "TargetFrame \<Rightarrow> label \<Rightarrow> nat option" where
  "column_position df c =
     (case filter (\<lambda>i. columns df ! i = c) [0 ..< length (columns df)] of
        [] \<Rightarrow> None | i # _ \<Rightarrow> Some i)"

definition groups :: "TargetFrame \<Rightarrow> (string \<times> int option) list" where
  "groups df = remdups (filter (\<lambda>k. snd k \<noteq> None) (map group_of (columns df)))"

definition compare_cell :: "string \<Rightarrow> cell option \<Rightarrow> pyfloat \<Rightarrow> error + bool" where
  "compare_cell oper x v =
     (case x of
        None \<Rightarrow> Inr (oper = ''!='')
      | Some (Num q) \<Rightarrow> Inr (compare_float oper q v)
      | Some (Txt t) \<Rightarrow>
          (if oper = ''='' then Inr False else if oper = ''!='' then Inr True
           else Inl TypeError))"

fun sequence :: "(error + 'a) list \<Rightarrow> error + 'a list" where
  "sequence [] = Inr []"
| "sequence (x # xs) =
     (case x of Inl e \<Rightarrow> Inl e
      | Inr v \<Rightarrow> (case sequence xs of Inl e \<Rightarrow> Inl e | Inr vs \<Rightarrow> Inr (v # vs)))"

text \<open>
  \<open>apply_comp_mod\<close> on the group \<open>k\<close>: the value is coerced first, outside the
  \<open>try\<close>; the \<open>except KeyError\<close> catches the lookup of a column the group lacks.
\<close>

definition apply_comp_mod ::
  "TargetFrame \<Rightarrow> string \<times> int option \<Rightarrow> string \<Rightarrow> string \<Rightarrow> string \<Rightarrow> error + bool list" where
  "apply_comp_mod df k key oper value =
     (case float value of
        None \<Rightarrow> Inl (ValueError ''could not convert string to float'')
      | Some v \<Rightarrow>
          (if oper \<in> set [''='', ''>='', ''<='', ''>'', ''<'', ''!=''] then
             (case column_position df (fst k, snd k, key) of
                None \<Rightarrow> Inr (map (\<lambda>r. False) (rows df))
              | Some i \<Rightarrow> sequence (map (\<lambda>r. compare_cell oper (cell_at r i) v) (rows df)))
           else Inl (ValueError ''invalid operator'')))"

definition COL_TRANSLATE :: "string \<Rightarrow> string" where
  "COL_TRANSLATE value =
     (if value = ''PVALUE'' then ''Pvalue''
      else if value = ''FC'' then ''Log2FC''
      else if value = ''ADDITIONAL_EDGE'' then ''ADD_EDGES''
      else value)"

definition apply_has_column :: "TargetFrame \<Rightarrow> string \<times> int option \<Rightarrow> string \<Rightarrow> error + bool list" where
  "apply_has_column df k value =
     Inr (map (\<lambda>r. (fst k, snd k, COL_TRANSLATE value) \<in> set (columns df)) (rows df))"

text \<open>
  \<open>apply_has_add_edges\<close>: the edge type is looked up by name; when there is none, or more
  than one, or the analysis is unknown, the mask is all false. Otherwise a row stays when
  its gene's annotation id is a target of such an edge from the analysis's transcription
  factor and belongs to a row of the group that has a cell.
\<close>

definition anno_ids :: "Database \<Rightarrow> gene \<Rightarrow> int list" where
  "anno_ids db g = map anno_id (filter (\<lambda>a. gene_id a = g) (annotation_tbl db))"

definition row_has_data :: "TargetFrame \<Rightarrow> string \<times> int option \<Rightarrow> row \<Rightarrow> bool" where
  "row_has_data df k r = list_ex (\<lambda>i. cell_at r i \<noteq> None) (group_positions df k)"

definition apply_has_add_edges ::
  "Database \<Rightarrow> TargetFrame \<Rightarrow> string \<times> int option \<Rightarrow> string \<Rightarrow> error + bool list" where
  "apply_has_add_edges db df k value =
     (case (filter (\<lambda>t. iexact (snd t) value) (edgetype_tbl db),
            filter (\<lambda>a. Some (analysis_id a) = snd k) (analysis_tbl db)) of
        ([edge_type], [a]) \<Rightarrow>
          (let from_tf = map (\<lambda>e. fst (snd e))
                           (filter (\<lambda>e. snd (snd e) = fst edge_type \<and> fst e = tf_id a)
                                   (edgedata_tbl db));
               with_data = concat (map (\<lambda>r. anno_ids db (fst r))
                                        (filter (row_has_data df k) (rows df)));
               target_ids = filter (\<lambda>i. i \<in> set with_data) from_tf
           in Inr (map (\<lambda>r. list_ex (\<lambda>i. i \<in> set target_ids) (anno_ids db (fst r)))
                       (rows df)))
      | _ \<Rightarrow> Inr (map (\<lambda>r. False) (rows df)))"

text \<open>
  \<open>df.groupby(level=[0, 1], axis=1).apply(f, ...)\<close>: \<open>f\<close> runs on every group, an
  exception of \<open>f\<close> leaves the call, and the results are put side by side.
\<close>

definition groupby_apply ::
  "TargetFrame \<Rightarrow> (string \<times> int option \<Rightarrow> error + bool list) \<Rightarrow> error + mask" where
  "groupby_apply df f =
     (case sequence (map f (groups df)) of
        Inl e \<Rightarrow> Inl e
      | Inr per_group \<Rightarrow>
          Inr (map (\<lambda>j. map (\<lambda>c. case filter (\<lambda>i. groups df ! i = group_of c)
                                                 [0 ..< length (groups df)] of
                                        [] \<Rightarrow> False
                                      | i # _ \<Rightarrow> (per_group ! i) ! j)
                              (columns df))
                   [0 ..< length (rows df)]))"

text \<open>\<open>query_metadata\<close>: the columns of the analyses that carry the key with the value.\<close>

definition query_metadata :: "Database \<Rightarrow> TargetFrame \<Rightarrow> string \<Rightarrow> string \<Rightarrow> mask" where
  "query_metadata db df key value =
     (let ref_ids = map fst (filter (\<lambda>d. iexact (fst (snd d)) key \<and> iexact (snd (snd d)) value)
                                    (analysisdata_tbl db))
      in map (\<lambda>r. map (\<lambda>c. case analysis_of c of None \<Rightarrow> False
                                | Some a \<Rightarrow> a \<in> set ref_ids)
                       (columns df))
             (rows df))"

text \<open>The condition \<open>key oper value\<close> of lines 221 to 240.\<close>

definition get_mod_key :: "Database \<Rightarrow> TargetFrame \<Rightarrow> string \<Rightarrow> string \<Rightarrow> string \<Rightarrow> error + mask" where
  "get_mod_key db df key oper value =
     (if re_match_word ''pvalue'' key then
        groupby_apply df (\<lambda>k. apply_comp_mod df k ''Pvalue'' oper value)
      else if re_match_word ''fc'' key then
        groupby_apply df (\<lambda>k. apply_comp_mod df k ''Log2FC'' oper value)
      else if re_match_word ''additional_edge'' key then
        groupby_apply df (\<lambda>k. apply_has_add_edges db df k value)
      else if re_match_word ''has_column'' key then
        groupby_apply df (\<lambda>k. apply_has_column df k (upper value))
      else Inr (query_metadata db df key value))"

text \<open>
  What \<open>get_mod\<close> returns: a mask, or the very string it was given (the last line of the
  function returns anything that is not a \<open>ParseResults\<close> as it is). The operators
  \<open>&\<close>, \<open>|\<close> and \<open>~\<close> combine masks cell by cell; on a string they raise.
\<close>

datatype mval = MaskV mask | StrV string

definition mask_and :: "mval \<Rightarrow> mval \<Rightarrow> error + mask" where
  "mask_and a b = (case (a, b) of
      (MaskV m, MaskV n) \<Rightarrow> Inr (map2 (map2 (\<and>)) m n)
    | _ \<Rightarrow> Inl TypeError)"

definition mask_or :: "mval \<Rightarrow> mval \<Rightarrow> error + mask" where
  "mask_or a b = (case (a, b) of
      (MaskV m, MaskV n) \<Rightarrow> Inr (map2 (map2 (\<or>)) m n)
    | _ \<Rightarrow> Inl TypeError)"

definition mask_not :: "mval \<Rightarrow> error + mask" where
  "mask_not a = (case a of MaskV m \<Rightarrow> Inr (map (map Not) m) | _ \<Rightarrow> Inl TypeError)"

text \<open>
  \<open>get_mod\<close>, lines 193 to 241. The loop reads the tokens of a group from left to right
  with a stack; \<open>run_mod\<close> is the loop, with the tokens still to read and the stack (top
  first). \<open>StopIteration\<close>, from any \<open>next(it)\<close>, ends the loop with the evaluation of
  the top of the stack; \<open>stack.pop()\<close> on an empty stack raises \<open>IndexError\<close>.
\<close>

function get_mod :: "Database \<Rightarrow> TargetFrame \<Rightarrow> mask slot \<Rightarrow> error + mval"
  and run_mod :: "Database \<Rightarrow> TargetFrame \<Rightarrow> pr list \<Rightarrow> mask slot list \<Rightarrow> error + mval" where
  "get_mod db df (Val m) = Inr (MaskV m)"
| "get_mod db df (Tok (Str s)) = Inr (StrV s)"
| "get_mod db df (Tok (Mod key oper value)) =
     (case get_mod_key db df key oper value of Inl e \<Rightarrow> Inl e | Inr m \<Rightarrow> Inr (MaskV m))"
| "get_mod db df (Tok (Modifier xs)) = run_mod db df xs []"
| "get_mod db df (Tok (Group xs)) = run_mod db df xs []"
| "run_mod db df [] stack =
     (case stack of [] \<Rightarrow> Inl IndexError | x # st \<Rightarrow> get_mod db df x)"
| "run_mod db df (cur # rest) stack =
     (if cur = Str ''and'' \<or> cur = Str ''or'' then
        (case stack of
           [] \<Rightarrow> Inl IndexError
         | x # st \<Rightarrow>
             (case get_mod db df x of
                Inl e \<Rightarrow> Inl e
              | Inr prec \<Rightarrow>
                  (case rest of
                     [] \<Rightarrow> (case st of [] \<Rightarrow> Inl IndexError | y # st' \<Rightarrow> get_mod db df y)
                   | n # rest' \<Rightarrow>
                       (case get_mod db df (Tok n) of
                          Inl e \<Rightarrow> Inl e
                        | Inr succ \<Rightarrow>
                            (case (if cur = Str ''and'' then mask_and prec succ
                                   else mask_or prec succ) of
                               Inl e \<Rightarrow> Inl e
                             | Inr m \<Rightarrow> run_mod db df rest' (Val m # st))))))
      else if cur = Str ''not'' then
        (case rest of
           [] \<Rightarrow> (case stack of [] \<Rightarrow> Inl IndexError | y # st' \<Rightarrow> get_mod db df y)
         | n # rest' \<Rightarrow>
             (case get_mod db df (Tok n) of
                Inl e \<Rightarrow> Inl e
              | Inr succ \<Rightarrow>
                  (case mask_not succ of
                     Inl e \<Rightarrow> Inl e
                   | Inr m \<Rightarrow> run_mod db df rest' (Val m # stack))))
      else run_mod db df rest (Tok cur # stack))"
  by pat_completeness auto
termination
  by (relation "measures
        [\<lambda>x. case x of Inl (db, df, q) \<Rightarrow> slot_size q
                     | Inr (db, df, rest, stack) \<Rightarrow> size_list size rest + size_list slot_size stack,
         \<lambda>x. case x of Inl (db, df, q) \<Rightarrow> 0
                     | Inr (db, df, rest, stack) \<Rightarrow> length rest]") auto

subsection \<open>The table fetcher\<close>

text \<open>
  Both fetchers first build a frame in long format, one row per (target, analysis), and
  then reshape it. \<open>add_edges\<close> (lines 244 to 301) reads the edge tables only and fills
  the field \<open>ADD_EDGES\<close>; it is a parameter of the model: given the long rows and the edge
  names it returns the new rows, or \<open>None\<close> where the source raises
  \<open>ValueError("No Edge Data")\<close>. \<open>uuid4\<close> is the stream of tokens drawn by
  \<open>get_suffix\<close>, \<open>groupby_raises\<close> says on which frames the grouped filter of pandas
  raises \<open>IndexError\<close>, and \<open>argsort\<close> is the sort of numpy behind \<open>sort_values\<close>
  (with its default \<open>kind='quicksort'\<close>): the positions of the values in ascending order.
\<close>

record long_row =
  TARGET :: string
  ANALYSIS :: int
  TF :: string
  EDGE :: "cell option"
  Pvalue :: "rat option"
  Log2FC :: "rat option"
  ADD_EDGES :: "string option"

record Env =
  db :: Database
  uuid4 :: "nat \<Rightarrow> string"
  groupby_raises :: "TargetFrame \<Rightarrow> bool"
  argsort :: "nat list \<Rightarrow> nat list"
  add_edges :: "long_row list \<Rightarrow> string list \<Rightarrow> long_row list option"

record Args =
  edges :: "string list option"
  tf_filter_list :: "string list option"
  target_filter_list :: "string list option"

definition attr_cell :: "string \<Rightarrow> long_row \<Rightarrow> cell option" where
  "attr_cell a r =
     (if a = ''EDGE'' then EDGE r
      else if a = ''Pvalue'' then map_option Num (Pvalue r)
      else if a = ''Log2FC'' then map_option Num (Log2FC r)
      else map_option Txt (ADD_EDGES r))"

text \<open>\<open>dropna(axis=1, how='all')\<close>: the columns with no cell at all go.\<close>

definition dropna_columns :: "TargetFrame \<Rightarrow> TargetFrame" where
  "dropna_columns df =
     take_columns (filter (\<lambda>i. list_ex (\<lambda>v. v \<noteq> None) (column_cells df i))
                          [0 ..< length (columns df)]) df"

text \<open>
  The reshaping (\<open>pivot\<close> in \<open>get_tf_data\<close>, \<open>set_index\<close> and \<open>unstack\<close> in
  \<open>get_all_tf\<close>): the targets become the sorted row index, every (transcription factor,
  analysis) in sorted order gets its attributes in the order of the long frame, and a pair
  (target, analysis) that occurs twice cannot be reshaped.
\<close>

definition reshape :: "long_row list \<Rightarrow> error + TargetFrame" where
  "reshape long =
     (if \<not> distinct (map (\<lambda>r. (TF r, ANALYSIS r, TARGET r)) long) then
        Inl (ValueError ''Index contains duplicate entries, cannot reshape'')
      else
        (let keys = sort (remdups (map (\<lambda>r. (TF r, ANALYSIS r)) long));
             cols = concat (map (\<lambda>k. map (\<lambda>a. (fst k, Some (snd k), a))
                                           [''EDGE'', ''Pvalue'', ''Log2FC'', ''ADD_EDGES'']) keys);
             cell = (\<lambda>g c. case filter (\<lambda>r. TARGET r = g \<and> TF r = tf_of c \<and>
                                               Some (ANALYSIS r) = analysis_of c) long of
                               [] \<Rightarrow> None | r # _ \<Rightarrow> attr_cell (attr_of c) r)
         in Inr (dropna_columns
                   (new_frame cols (map (\<lambda>g. (g, map (cell g) cols))
                                        (sort (remdups (map TARGET long))))))))"

text \<open>\<open>df.merge(reg, on=['ANALYSIS', 'TARGET'], how='left')\<close> on the long rows.\<close>

definition merge_reg ::
  "(int \<times> string \<times> rat option \<times> rat option) list \<Rightarrow> long_row \<Rightarrow> long_row list" where
  "merge_reg reg r =
     (case filter (\<lambda>x. fst x = ANALYSIS r \<and> fst (snd x) = TARGET r) reg of
        [] \<Rightarrow> [r]
      | ms \<Rightarrow> map (\<lambda>x. r\<lparr>Pvalue := fst (snd (snd x)), Log2FC := snd (snd (snd x))\<rparr>) ms)"

definition in_target_filter :: "string list option \<Rightarrow> string \<Rightarrow> bool" where
  "in_target_filter l t = (case l of None \<Rightarrow> True | Some ts \<Rightarrow> upper t \<in> set (map upper ts))"

definition maybe_add_edges :: "Env \<Rightarrow> Args \<Rightarrow> long_row list \<Rightarrow> long_row list" where
  "maybe_add_edges env args long =
     (case edges args of
        None \<Rightarrow> long
      | Some es \<Rightarrow> if es = [] then long
                   else (case add_edges env long es of None \<Rightarrow> long | Some long' \<Rightarrow> long'))"

text \<open>
  \<open>get_tf_data\<close>, lines 304 to 359. With no interaction row left the result is the
  placeholder of line 354: no rows and the single column \<open>(query, NaN, 'EDGE')\<close>.
  Line 356 puts the query, as it was typed, in front of every column label.
\<close>

definition tf_analyses :: "Env \<Rightarrow> Args \<Rightarrow> string \<Rightarrow> int list" where
  "tf_analyses env args query =
     (let allowed = (case tf_filter_list args of
                       None \<Rightarrow> True
                     | Some l \<Rightarrow> list_ex (\<lambda>x. lower x = lower query \<or>
                                               lower x = lower query @ [CHR 0x0A]) l)
      in if allowed
         then map analysis_id (filter (\<lambda>a. iexact (tf_gene_id a) query) (analysis_tbl (db env)))
         else [])"

definition tf_interactions :: "Env \<Rightarrow> Args \<Rightarrow> string \<Rightarrow> (string \<times> int) list" where
  "tf_interactions env args query =
     filter (\<lambda>i. snd i \<in> set (tf_analyses env args query) \<and>
                  in_target_filter (target_filter_list args) (fst i))
            (interaction_tbl (db env))"

definition placeholder :: "string \<Rightarrow> TargetFrame" where
  "placeholder query = (new_frame [(query, None, ''EDGE'')] [])\<lparr>filter_string := query\<rparr>"

definition get_tf_data :: "Env \<Rightarrow> Args \<Rightarrow> string \<Rightarrow> error + TargetFrame" where
  "get_tf_data env args query =
     (let analyses = tf_analyses env args query;
          df = tf_interactions env args query
      in if df \<noteq> [] then
           (let reg = filter (\<lambda>x. fst x \<in> set analyses) (regulation_tbl (db env));
                long = concat (map (\<lambda>i. merge_reg reg
                                 \<lparr>TARGET = fst i, ANALYSIS = snd i, TF = query,
                                  EDGE = (if snd i \<in> set (map fst reg) then None
                                          else Some (Txt ''+'')),
                                  Pvalue = None, Log2FC = None, ADD_EDGES = None\<rparr>) df)
            in case reshape (map (\<lambda>r. r\<lparr>TF := query\<rparr>) (maybe_add_edges env args long)) of
                 Inl e \<Rightarrow> Inl e
               | Inr t \<Rightarrow> Inr (t\<lparr>filter_string := query\<rparr>))
         else Inr (placeholder query))"

text \<open>
  \<open>get_all_tf\<close>, lines 362 to 434. Line 408 raises when no row is left. For
  \<open>multitype\<close> the analyses are those of the transcription factors with more than one
  experiment type; without any \<open>EXPERIMENT_TYPE\<close> row the frame \<open>a\<close> has no column
  \<open>tf_id\<close> to group by.
\<close>

definition multitype_ids :: "Database \<Rightarrow> error + int list" where
  "multitype_ids d =
     (let a = concat (map (\<lambda>x. map (\<lambda>kv. (analysis_id x, tf_id x, snd (snd kv)))
                                     (filter (\<lambda>kv. fst kv = analysis_id x \<and>
                                                    iexact (fst (snd kv)) ''EXPERIMENT_TYPE'')
                                             (analysisdata_tbl d)))
                          (analysis_tbl d))
      in if a = [] then Inl (KeyError ''tf_id'')
         else Inr (map fst (filter (\<lambda>x. 1 < length (remdups (map (\<lambda>y. snd (snd y))
                                              (filter (\<lambda>y. fst (snd y) = fst (snd x)) a)))) a)))"

definition all_not_na :: "TargetFrame \<Rightarrow> row \<Rightarrow> bool" where
  "all_not_na df r =
     list_all (\<lambda>i. attr_of (columns df ! i) \<in> set [''EDGE'', ''Log2FC'']
                   \<longrightarrow> cell_at r i \<noteq> None) [0 ..< length (columns df)]"

definition all_tf_rows :: "Env \<Rightarrow> Args \<Rightarrow> string \<Rightarrow> error + long_row list" where
  "all_tf_rows env args query =
     (case (if query = ''multitype''
            then (case multitype_ids (db env) of
                    Inl e \<Rightarrow> Inl e
                  | Inr ids \<Rightarrow> Inr (filter (\<lambda>i. snd i \<in> set ids) (interaction_tbl (db env))))
            else Inr (interaction_tbl (db env))) of
        Inl e \<Rightarrow> Inl e
      | Inr qs0 \<Rightarrow>
          (let tf_ok = (\<lambda>a. case tf_filter_list args of None \<Rightarrow> True
                              | Some l \<Rightarrow> tf_gene_id a \<in> set l);
               qs = filter (\<lambda>i. list_ex (\<lambda>a. analysis_id a = snd i \<and> tf_ok a)
                                         (analysis_tbl (db env))) qs0;
               df = filter (\<lambda>i. in_target_filter (target_filter_list args) (fst i)) qs;
               with_tf = concat (map (\<lambda>i. map (\<lambda>a.
                                   \<lparr>TARGET = fst i, ANALYSIS = snd i, TF = tf_gene_id a,
                                    EDGE = None, Pvalue = None, Log2FC = None,
                                    ADD_EDGES = None\<rparr>)
                                   (filter (\<lambda>a. analysis_id a = snd i) (analysis_tbl (db env))))
                                 df)
           in Inr (concat (map (merge_reg (regulation_tbl (db env))) with_tf))))"

definition get_all_tf :: "Env \<Rightarrow> Args \<Rightarrow> string \<Rightarrow> error + TargetFrame" where
  "get_all_tf env args query =
     (case all_tf_rows env args query of
        Inl e \<Rightarrow> Inl e
      | Inr long \<Rightarrow>
          (if long = [] then Inl (ValueError ''No data in database.'')
           else
             (let no_fc = (\<lambda>a. list_all (\<lambda>r. Log2FC r = None)
                                         (filter (\<lambda>r. ANALYSIS r = a) long));
                  long' = map (\<lambda>r. r\<lparr>EDGE := (if no_fc (ANALYSIS r) then Some (Txt ''+'')
                                                else None)\<rparr>)
                              (maybe_add_edges env args long)
              in case reshape long' of
                   Inl e \<Rightarrow> Inl e
                 | Inr t \<Rightarrow>
                     (let t' = t\<lparr>filter_string := query\<rparr>
                      in Inr (if query = ''andalltfs''
                              then t'\<lparr>rows := filter (all_not_na t') (rows t')\<rparr>
                              else t')))))"

subsection \<open>The set-algebra evaluator\<close>

text \<open>
  Applying a modifier, lines 511 to 517: \<open>prec[mod]\<close> blanks the cells the mask rejects,
  \<open>dropna(how='all')\<close> removes the rows left without a cell, and the grouped filter drops
  the column groups left without a cell. This grouped filter is not guarded.
\<close>

definition where_mask :: "TargetFrame \<Rightarrow> mask \<Rightarrow> TargetFrame" where
  "where_mask df m =
     df\<lparr>rows := map (\<lambda>j. (fst (rows df ! j),
                           map (\<lambda>i. if j < length m \<and> i < length (m ! j) \<and> (m ! j) ! i
                                     then cell_at (rows df ! j) i else None)
                               [0 ..< length (columns df)]))
                     [0 ..< length (rows df)]\<rparr>"

definition dropna_rows :: "TargetFrame \<Rightarrow> TargetFrame" where
  "dropna_rows df = df\<lparr>rows := filter (\<lambda>r. list_ex (\<lambda>v. v \<noteq> None) (snd r)) (rows df)\<rparr>"

definition apply_modifier :: "Env \<Rightarrow> TargetFrame \<Rightarrow> pr \<Rightarrow> error + TargetFrame" where
  "apply_modifier env prec cur =
     (case get_mod (db env) prec (Tok cur) of
        Inl e \<Rightarrow> Inl e
      | Inr (StrV s) \<Rightarrow> Inl (KeyError s)
      | Inr (MaskV m) \<Rightarrow>
          (let prec1 = dropna_rows (where_mask prec m)
           in if groupby_raises env prec1 then Inl IndexError
              else Inr ((filter_groups prec1)
                          \<lparr>filter_string := filter_string prec @ ''['' @ mod_to_str cur @ '']''\<rparr>)))"

text \<open>The leaf of line 527: a reserved keyword goes to \<open>get_all_tf\<close> in lower case.\<close>

definition fetch :: "Env \<Rightarrow> Args \<Rightarrow> string \<Rightarrow> error + TargetFrame" where
  "fetch env args query =
     (if lower query \<in> set [''andalltfs'', ''oralltfs'', ''multitype'']
      then get_all_tf env args (lower query)
      else get_tf_data env args query)"

text \<open>\<open>get_suffix\<close> is called, and two tokens are drawn, where the frames are merged.\<close>

definition merges :: "TargetFrame \<Rightarrow> TargetFrame \<Rightarrow> bool" where
  "merges prec succ \<longleftrightarrow> included prec = included succ"

fun weight :: "pr \<Rightarrow> nat" where
  "weight (Str s) = 0"
| "weight (Mod k oper v) = 7"
| "weight (Modifier xs) = Suc (sum_list (map (\<lambda>x. Suc (weight x)) xs))"
| "weight (Group xs) = Suc (sum_list (map (\<lambda>x. Suc (weight x)) xs))"

fun slot_weight :: "'v slot \<Rightarrow> nat" where
  "slot_weight (Tok q) = weight q"
| "slot_weight (Val v) = 0"

text \<open>
  \<open>get_tf\<close>, lines 441 to 530, with the number of tokens drawn so far passed along.
  \<open>run_tf\<close> is the loop over the tokens of a group, with the stack (top first).
\<close>

function get_tf :: "Env \<Rightarrow> Args \<Rightarrow> TargetFrame slot \<Rightarrow> nat \<Rightarrow> error + TargetFrame \<times> nat"
  and run_tf :: "Env \<Rightarrow> Args \<Rightarrow> pr list \<Rightarrow> TargetFrame slot list \<Rightarrow> nat
                  \<Rightarrow> error + TargetFrame \<times> nat" where
  "get_tf env args (Val df) n = Inr (df, n)"
| "get_tf env args (Tok (Str query)) n =
     (case fetch env args query of Inl e \<Rightarrow> Inl e | Inr df \<Rightarrow> Inr (df, n))"
| "get_tf env args (Tok (Mod k oper v)) n = run_tf env args [Str k, Str oper, Str v] [] n"
| "get_tf env args (Tok (Modifier xs)) n = run_tf env args xs [] n"
| "get_tf env args (Tok (Group xs)) n = run_tf env args xs [] n"
| "run_tf env args [] stack n =
     (case stack of [] \<Rightarrow> Inl IndexError | x # st \<Rightarrow> get_tf env args x n)"
| "run_tf env args (cur # rest) stack n =
     (if cur = Str ''and'' \<or> cur = Str ''or'' then
        (case stack of
           [] \<Rightarrow> Inl IndexError
         | x # st \<Rightarrow>
             (case get_tf env args x n of
                Inl e \<Rightarrow> Inl e
              | Inr (prec, n1) \<Rightarrow>
                  (case rest of
                     [] \<Rightarrow> (case st of [] \<Rightarrow> Inl IndexError | y # st' \<Rightarrow> get_tf env args y n1)
                   | nx # rest' \<Rightarrow>
                       (case get_tf env args (Tok nx) n1 of
                          Inl e \<Rightarrow> Inl e
                        | Inr (succ, n2) \<Rightarrow>
                            run_tf env args rest'
                              (Val (and_or (groupby_raises env)
                                      (if cur = Str ''and'' then ''and'' else ''or'')
                                      (uuid4 env n2, uuid4 env (Suc n2)) prec succ) # st)
                              (if merges prec succ then n2 + 2 else n2)))))
      else if cur = Str ''not'' then
        (case rest of
           [] \<Rightarrow> (case stack of [] \<Rightarrow> Inl IndexError | y # st' \<Rightarrow> get_tf env args y n)
         | nx # rest' \<Rightarrow>
             (case get_tf env args (Tok nx) n of
                Inl e \<Rightarrow> Inl e
              | Inr (succ, n1) \<Rightarrow> run_tf env args rest' (Val (not_op succ) # stack) n1))
      else if is_modifier cur then
        (case stack of
           [] \<Rightarrow> Inl IndexError
         | x # st \<Rightarrow>
             (case get_tf env args x n of
                Inl e \<Rightarrow> Inl e
              | Inr (prec, n1) \<Rightarrow>
                  (case apply_modifier env prec cur of
                     Inl e \<Rightarrow> Inl e
                   | Inr prec' \<Rightarrow> run_tf env args rest (Val prec' # st) n1)))
      else run_tf env args rest (Tok cur # stack) n)"
  by pat_completeness auto
termination
  by (relation "measures
        [\<lambda>x. case x of Inl (env, args, q, n) \<Rightarrow> slot_weight q
                     | Inr (env, args, rest, stack, n) \<Rightarrow>
                         sum_list (map (\<lambda>x. Suc (weight x)) rest) +
                         sum_list (map (\<lambda>x. Suc (slot_weight x)) stack),
         \<lambda>x. case x of Inl (env, args, q, n) \<Rightarrow> 0
                     | Inr (env, args, rest, stack, n) \<Rightarrow> length rest]") auto

subsection \<open>The grammar\<close>

text \<open>
  Lines 55 to 84 build the grammar from pyparsing combinators. A parser reads from a
  position of the input; here it gets the character before the position (a keyword looks
  at it) and the rest of the input, and returns its tokens and the new position, or fails.
  Every token skips the white space before it. The input is ASCII.

  The recursion of the grammar goes through brackets and through \<open>not\<close>; the model
  counts it down from a bound. \<open>Timeout\<close> is the result where the bound is used up.
\<close>

type_synonym pstate = "char option \<times> string"

datatype 'a pres = Ok 'a pstate | Fail | Timeout

type_synonym 'a parser = "pstate \<Rightarrow> 'a pres"

definition advance :: "nat \<Rightarrow> pstate \<Rightarrow> pstate" where
  "advance n st =
     (if n = 0 \<or> snd st = [] then st
      else (Some (snd st ! (min n (length (snd st)) - 1)), drop n (snd st)))"

definition is_white :: "char \<Rightarrow> bool" where
  "is_white c \<longleftrightarrow> c \<in> set [CHR '' '', CHR 0x0A, CHR 0x09, CHR 0x0D]"

definition skip_white :: "pstate \<Rightarrow> pstate" where
  "skip_white st = advance (length (takeWhile is_white (snd st))) st"

definition is_alpha :: "char \<Rightarrow> bool" where
  "is_alpha c \<longleftrightarrow> (CHR ''a'' \<le> c \<and> c \<le> CHR ''z'') \<or> (CHR ''A'' \<le> c \<and> c \<le> CHR ''Z'')"

definition is_name_char :: "char \<Rightarrow> bool" where
  "is_name_char c \<longleftrightarrow> is_alpha c \<or> is_digit c \<or> c \<in> set ''-_.:''"

text \<open>\<open>name = pp.Word(alphanums + '-_.:')\<close>: the longest run of such characters.\<close>

definition name :: "string parser" where
  "name st =
     (let st1 = skip_white st; w = takeWhile is_name_char (snd st1)
      in if w = [] then Fail else Ok w (advance (length w) st1))"

text \<open>
  \<open>pp.CaselessKeyword\<close>: the word in any case, neither followed nor preceded by an
  identifier character (a letter, a digit, \<open>_\<close> or \<open>$\<close>). The token is the word as
  the grammar spells it.
\<close>

definition is_ident_char :: "char \<Rightarrow> bool" where
  "is_ident_char c \<longleftrightarrow> is_alpha c \<or> is_digit c \<or> c = CHR ''_'' \<or> c = CHR ''$''"

definition keyword :: "string \<Rightarrow> string parser" where
  "keyword w st =
     (let st1 = skip_white st; s = snd st1
      in if upper (take (length w) s) = upper w
            \<and> (length s \<le> length w \<or> \<not> is_ident_char (s ! length w))
            \<and> (case fst st1 of None \<Rightarrow> True | Some c \<Rightarrow> \<not> is_ident_char c)
         then Ok w (advance (length w) st1) else Fail)"

text \<open>\<open>pp.Literal\<close>, also under \<open>pp.Suppress\<close>.\<close>

definition literal :: "string \<Rightarrow> string parser" where
  "literal w st =
     (let st1 = skip_white st
      in if w \<noteq> [] \<and> take (length w) (snd st1) = w then Ok w (advance (length w) st1)
         else Fail)"

text \<open>
  \<open>pp.QuotedString(q, escChar='\\')\<close>: from the quote to the next quote that no
  backslash escapes, on one line. The token is the text between the quotes, where first
  \<open>\t\<close>, \<open>\n\<close>, \<open>\f\<close> and \<open>\r\<close> are replaced by the white space they name and
  then each backslash before a character other than a newline is removed.
\<close>

fun quoted_body :: "char \<Rightarrow> string \<Rightarrow> nat option" where
  "quoted_body q [] = None"
| "quoted_body q [c] = (if c = q then Some 0 else None)"
| "quoted_body q (c # d # cs) =
     (if c = q then Some 0
      else if c = CHR 0x5C then
        (if d = CHR 0x0A then None else map_option (\<lambda>n. n + 2) (quoted_body q cs))
      else if c = CHR 0x0A \<or> c = CHR 0x0D then None
      else map_option Suc (quoted_body q (d # cs)))"

fun replace2 :: "char \<Rightarrow> char \<Rightarrow> char \<Rightarrow> string \<Rightarrow> string" where
  "replace2 a b r (c # d # cs) =
     (if c = a \<and> d = b then r # replace2 a b r cs else c # replace2 a b r (d # cs))"
| "replace2 a b r cs = cs"

fun unescape :: "string \<Rightarrow> string" where
  "unescape (c # d # cs) =
     (if c = CHR 0x5C \<and> d \<noteq> CHR 0x0A then d # unescape cs else c # unescape (d # cs))"
| "unescape cs = cs"

definition unquote :: "string \<Rightarrow> string" where
  "unquote s =
     unescape (replace2 (CHR 0x5C) (CHR ''r'') (CHR 0x0D)
              (replace2 (CHR 0x5C) (CHR ''f'') (CHR 0x0C)
              (replace2 (CHR 0x5C) (CHR ''n'') (CHR 0x0A)
              (replace2 (CHR 0x5C) (CHR ''t'') (CHR 0x09) s))))"

definition QuotedString :: "char \<Rightarrow> string parser" where
  "QuotedString q st =
     (let st1 = skip_white st
      in case snd st1 of
           [] \<Rightarrow> Fail
         | c # cs \<Rightarrow>
             (if c = q then
                (case quoted_body q cs of
                   None \<Rightarrow> Fail
                 | Some n \<Rightarrow> Ok (unquote (take n cs)) (advance (n + 2) st1))
              else Fail))"

definition alt :: "'a parser \<Rightarrow> 'a parser \<Rightarrow> 'a parser" where
  "alt p q st = (case p st of Fail \<Rightarrow> q st | r \<Rightarrow> r)"

definition quoted_name :: "string parser" where
  "quoted_name = alt (QuotedString (CHR 0x22)) (QuotedString (CHR 0x27))"

text \<open>\<open>pp.oneOf('< = > >= <= !=')\<close> tries the longer operators first.\<close>

definition oper_p :: "string parser" where
  "oper_p = alt (literal ''>='') (alt (literal ''<='') (alt (literal ''!='')
              (alt (literal ''<'') (alt (literal ''='') (literal ''>'')))))"

definition modname :: "pr parser" where
  "modname st =
     (case alt name quoted_name st of
        Ok key st1 \<Rightarrow>
          (case oper_p st1 of
             Ok oper st2 \<Rightarrow>
               (case alt name quoted_name st2 of
                  Ok value st3 \<Rightarrow> Ok (Mod key oper value) st3
                | Fail \<Rightarrow> Fail | Timeout \<Rightarrow> Timeout)
           | Fail \<Rightarrow> Fail | Timeout \<Rightarrow> Timeout)
      | Fail \<Rightarrow> Fail | Timeout \<Rightarrow> Timeout)"

text \<open>
  \<open>pp.OneOrMore\<close> and the repetition inside \<open>pp.infixNotation\<close>: as many matches as
  there are, each starting where the one before ended.
\<close>

primrec many :: "nat \<Rightarrow> 'a parser \<Rightarrow> ('a list) parser" where
  "many 0 p st = (case p st of Fail \<Rightarrow> Ok [] st | _ \<Rightarrow> Timeout)"
| "many (Suc n) p st =
     (case p st of
        Fail \<Rightarrow> Ok [] st
      | Timeout \<Rightarrow> Timeout
      | Ok x st1 \<Rightarrow>
          (case many n p st1 of
             Ok xs st2 \<Rightarrow> Ok (x # xs) st2
           | Fail \<Rightarrow> Fail | Timeout \<Rightarrow> Timeout))"

definition repeated :: "'a parser \<Rightarrow> ('a list) parser" where
  "repeated p st = many (length (snd st)) p st"

definition after :: "'b parser \<Rightarrow> 'a parser \<Rightarrow> 'a parser" where
  "after k p st = (case k st of Ok w st1 \<Rightarrow> p st1 | Fail \<Rightarrow> Fail | Timeout \<Rightarrow> Timeout)"

text \<open>
  The levels of \<open>pp.infixNotation(baseExpr, opList)\<close>, each on top of the level below
  (\<open>lastExpr\<close>). A level that finds no operator gives the tokens of the level below.

  A unary operator to the right, \<open>not\<close>:
  \<open>FollowedBy(not + thisExpr) + Group(Optional(not) + thisExpr) | lastExpr\<close>.
\<close>

primrec not_level :: "nat \<Rightarrow> pr parser \<Rightarrow> pr parser" where
  "not_level 0 lastExpr st = Timeout"
| "not_level (Suc n) lastExpr st =
     (case after (keyword ''not'') (not_level n lastExpr) st of
        Ok t st1 \<Rightarrow> Ok (Group [Str ''not'', t]) st1
      | Fail \<Rightarrow> lastExpr st
      | Timeout \<Rightarrow> Timeout)"

text \<open>
  A binary operator to the left:
  \<open>FollowedBy(lastExpr + op + lastExpr) + Group(lastExpr + OneOrMore(op + lastExpr)) | lastExpr\<close>.
\<close>

definition binary_level :: "string \<Rightarrow> pr parser \<Rightarrow> pr parser" where
  "binary_level w lastExpr st =
     (case lastExpr st of
        Ok t st1 \<Rightarrow>
          (case repeated (after (keyword w) lastExpr) st1 of
             Ok ts st2 \<Rightarrow>
               (if ts = [] then Ok t st1
                else Ok (Group (t # concat (map (\<lambda>x. [Str w, x]) ts))) st2)
           | Fail \<Rightarrow> Fail | Timeout \<Rightarrow> Timeout)
      | Fail \<Rightarrow> Fail | Timeout \<Rightarrow> Timeout)"

text \<open>
  A unary operator to the left, the bracketed modifier:
  \<open>FollowedBy(lastExpr + op) + Group(lastExpr + OneOrMore(op)) | lastExpr\<close>.
\<close>

definition postfix_level :: "pr parser \<Rightarrow> pr parser \<Rightarrow> pr parser" where
  "postfix_level opExpr lastExpr st =
     (case lastExpr st of
        Ok t st1 \<Rightarrow>
          (case repeated opExpr st1 of
             Ok ts st2 \<Rightarrow> (if ts = [] then Ok t st1 else Ok (Group (t # ts)) st2)
           | Fail \<Rightarrow> Fail | Timeout \<Rightarrow> Timeout)
      | Fail \<Rightarrow> Fail | Timeout \<Rightarrow> Timeout)"

text \<open>\<open>baseExpr | (lpar + ret + rpar)\<close>.\<close>

definition operand :: "pr parser \<Rightarrow> pr parser \<Rightarrow> pr parser" where
  "operand baseExpr ret st =
     (case baseExpr st of
        Fail \<Rightarrow>
          (case after (literal ''('') ret st of
             Ok t st1 \<Rightarrow> (case literal '')'' st1 of Ok w st2 \<Rightarrow> Ok t st2
                           | Fail \<Rightarrow> Fail | Timeout \<Rightarrow> Timeout)
           | Fail \<Rightarrow> Fail | Timeout \<Rightarrow> Timeout)
      | r \<Rightarrow> r)"

definition opers :: "nat \<Rightarrow> pr parser \<Rightarrow> pr parser" where
  "opers n lastExpr = binary_level ''or'' (binary_level ''and'' (not_level n lastExpr))"

text \<open>\<open>pp.infixNotation(modname, opers)\<close>, the body of a modifier.\<close>

primrec mod_expr :: "nat \<Rightarrow> pr parser" where
  "mod_expr 0 = (\<lambda>st. Timeout)"
| "mod_expr (Suc n) = opers (Suc n) (operand modname (mod_expr n))"

definition modifier :: "pr parser" where
  "modifier st =
     (case after (literal ''['') (mod_expr (Suc (length (snd st)))) st of
        Ok t st1 \<Rightarrow> (case literal '']'' st1 of Ok w st2 \<Rightarrow> Ok (Modifier [t]) st2
                      | Fail \<Rightarrow> Fail | Timeout \<Rightarrow> Timeout)
      | Fail \<Rightarrow> Fail | Timeout \<Rightarrow> Timeout)"

definition gene :: "pr parser" where
  "gene st = (case name st of Ok w st1 \<Rightarrow> Ok (Str w) st1 | Fail \<Rightarrow> Fail | Timeout \<Rightarrow> Timeout)"

text \<open>\<open>expr = pp.infixNotation(gene, [(modifier, 1, pp.opAssoc.LEFT)] + opers)\<close>.\<close>

primrec expr :: "nat \<Rightarrow> pr parser" where
  "expr 0 = (\<lambda>st. Timeout)"
| "expr (Suc n) = opers (Suc n) (postfix_level modifier (operand gene (expr n)))"

text \<open>
  \<open>expr.parseString(query, parseAll=True)\<close>: tabs are expanded to columns of eight, the
  expression is read from the start, and only white space may follow it.
\<close>

fun expandtabs :: "nat \<Rightarrow> string \<Rightarrow> string" where
  "expandtabs col [] = []"
| "expandtabs col (c # cs) =
     (if c = CHR 0x09 then replicate (8 - col mod 8) (CHR '' '') @ expandtabs 0 cs
      else if c = CHR 0x0A \<or> c = CHR 0x0D then c # expandtabs 0 cs
      else c # expandtabs (Suc col) cs)"

datatype parsed = Parsed pr | ParseException | OutOfFuel

definition parseString :: "string \<Rightarrow> parsed" where
  "parseString query =
     (let instring = expandtabs 0 query
      in case expr (Suc (length instring)) (None, instring) of
           Ok t st \<Rightarrow> if snd (skip_white st) = [] then Parsed t else ParseException
         | Fail \<Rightarrow> ParseException
         | Timeout \<Rightarrow> OutOfFuel)"

subsection \<open>Reordering the columns\<close>

text \<open>
  \<open>reorder_data\<close>, lines 533 to 545. The cells of the \<open>EDGE\<close> and \<open>Log2FC\<close> columns are
  counted per analysis and per transcription factor; the two series are indexed by the
  values of the level in ascending order. \<open>sort_values(ascending=False)\<close> sorts the
  counts with \<open>argsort\<close> and reverses the result.
\<close>

definition counted :: "label \<Rightarrow> bool" where
  "counted c \<longleftrightarrow> attr_of c \<in> set [''EDGE'', ''Log2FC'']"

definition count_cells :: "TargetFrame \<Rightarrow> (label \<Rightarrow> bool) \<Rightarrow> nat" where
  "count_cells df p =
     sum_list (map (\<lambda>i. if counted (columns df ! i) \<and> p (columns df ! i)
                         then length (filter (\<lambda>v. v \<noteq> None) (column_cells df i)) else 0)
                   [0 ..< length (columns df)])"

definition analysis_levels :: "TargetFrame \<Rightarrow> int list" where
  "analysis_levels df = sort (remdups (concat (map (\<lambda>c. case analysis_of c of None \<Rightarrow> []
                                                        | Some a \<Rightarrow> [a]) (columns df))))"

definition tf_levels :: "TargetFrame \<Rightarrow> string list" where
  "tf_levels df = sort (remdups (map tf_of (columns df)))"

definition sort_values :: "Env \<Rightarrow> ('a \<times> nat) list \<Rightarrow> 'a list" where
  "sort_values env xs =
     map (\<lambda>i. fst (xs ! i)) (filter (\<lambda>i. i < length xs) (rev (argsort env (map snd xs))))"

definition position :: "'a list \<Rightarrow> 'a \<Rightarrow> nat" where
  "position xs x = length (takeWhile (\<lambda>y. y \<noteq> x) xs)"

text \<open>
  \<open>df.reindex(labels=..., axis=1, level=1)\<close>: the columns whose analysis is among the
  labels stay; within every run of neighbouring columns of one transcription factor they
  are put in the order of the labels, columns of one analysis keeping their order.
  \<open>df.reindex(labels=..., axis=1, level=0)\<close> then puts all columns in the order of the
  labels for the transcription factor, again keeping the order among equals.
\<close>

function runs :: "('a \<Rightarrow> 'b) \<Rightarrow> 'a list \<Rightarrow> 'a list list" where
  "runs f [] = []"
| "runs f (x # xs) =
     (x # takeWhile (\<lambda>y. f y = f x) xs) # runs f (dropWhile (\<lambda>y. f y = f x) xs)"
  by pat_completeness auto
termination
  by (relation "measure (\<lambda>(f, xs). length xs)") (auto simp: length_dropWhile_le less_Suc_eq_le)

definition reindex_level1 :: "int list \<Rightarrow> label list \<Rightarrow> nat list \<Rightarrow> nat list" where
  "reindex_level1 labels cs is =
     concat (map (sort_key (\<lambda>i. position labels (the (analysis_of (cs ! i)))))
                 (runs (\<lambda>i. tf_of (cs ! i))
                       (filter (\<lambda>i. case analysis_of (cs ! i) of None \<Rightarrow> False
                                     | Some a \<Rightarrow> a \<in> set labels) is)))"

definition reindex_level0 :: "string list \<Rightarrow> label list \<Rightarrow> nat list \<Rightarrow> nat list" where
  "reindex_level0 labels cs is =
     sort_key (\<lambda>i. position labels (tf_of (cs ! i)))
              (filter (\<lambda>i. tf_of (cs ! i) \<in> set labels) is)"

definition reorder_data :: "Env \<Rightarrow> TargetFrame \<Rightarrow> TargetFrame" where
  "reorder_data env df =
     (let analysis_order = sort_values env
            (map (\<lambda>a. (a, count_cells df (\<lambda>c. analysis_of c = Some a))) (analysis_levels df));
          tf_order = sort_values env
            (map (\<lambda>t. (t, count_cells df (\<lambda>c. tf_of c = t))) (tf_levels df))
      in take_columns
           (reindex_level0 tf_order (columns df)
              (reindex_level1 analysis_order (columns df) [0 ..< length (columns df)]))
           df)"

subsection \<open>The entry points\<close>

text \<open>
  \<open>parse_query\<close>, lines 604 to 618. Only \<open>pp.ParseException\<close> is caught; every other
  exception of the evaluation leaves the function as it is.
\<close>

definition parse_query :: "Env \<Rightarrow> Args \<Rightarrow> string \<Rightarrow> error + TargetFrame" where
  "parse_query env args query =
     (case parseString query of
        Parsed parse \<Rightarrow>
          (case get_tf env args (Tok parse) 0 of
             Inl e \<Rightarrow> Inl e
           | Inr (result, n) \<Rightarrow>
               if is_empty result \<or> \<not> included result then Inl (QueryError ''empty query'')
               else Inr (reorder_data env result))
      | _ \<Rightarrow> Inl (QueryError ''Could not parse query''))"

text \<open>\<open>get_stats\<close> and \<open>get_tf_count\<close>: cells of the counted columns, per group and per row.\<close>

definition get_stats :: "TargetFrame \<Rightarrow> ((string \<times> int option) \<times> nat) list" where
  "get_stats result = map (\<lambda>k. (k, count_cells result (\<lambda>c. group_of c = k))) (groups result)"

definition get_tf_count :: "TargetFrame \<Rightarrow> row \<Rightarrow> nat" where
  "get_tf_count df r =
     length (filter (\<lambda>i. counted (columns df ! i) \<and> cell_at r i \<noteq> None)
                    [0 ..< length (columns df)])"

text \<open>\<open>get_metadata\<close>: the annotation pairs of the analyses, with the gene of each.\<close>

definition get_metadata :: "Database \<Rightarrow> int option list \<Rightarrow> (int \<times> string \<times> string) list" where
  "get_metadata d ids =
     filter (\<lambda>x. Some (fst x) \<in> set ids) (analysisdata_tbl d) @
     concat (map (\<lambda>a. if Some (analysis_id a) \<in> set ids
                       then [(analysis_id a, ''GENE_ID'', tf_gene_id a)] @
                            map (\<lambda>t. (analysis_id a, ''GENE_NAME'', gene_name t))
                                (filter (\<lambda>t. anno_id t = tf_id a) (annotation_tbl d))
                       else [])
                 (analysis_tbl d))"

text \<open>
  The assembled table: one row per gene with the annotation, the membership in the user's
  lists, the count of the row and its cells.
\<close>

record out_row =
  TARGET_of :: gene
  Annotation_of :: "Annotation option"
  User_List :: "string option"
  User_List_Count :: "nat option"
  TF_Count :: nat
  cells_of :: "cell option list"

record Output =
  out_columns :: "label list"
  out_rows :: "out_row list"
  metadata :: "(int \<times> string \<times> string) list"
  stats :: "((string \<times> int option) \<times> nat) list"

type_synonym user_lists = "(gene \<times> string \<times> nat) list"

definition with_annotation :: "Database \<Rightarrow> out_row \<Rightarrow> out_row list" where
  "with_annotation d r =
     (case filter (\<lambda>a. gene_id a = TARGET_of r) (annotation_tbl d) of
        [] \<Rightarrow> [r]
      | ms \<Rightarrow> map (\<lambda>a. r\<lparr>Annotation_of := Some a\<rparr>) ms)"

text \<open>
  \<open>get_query_result\<close>, lines 628 to 700, for a call without a cache path (the cache is
  outside the model). The restriction to the user's genes (line 655) comes first, then the
  test for an empty result (line 657), then the size limit (line 677), which is taken on
  the frame as it is by then.
\<close>

definition restrict_to :: "user_lists \<Rightarrow> TargetFrame \<Rightarrow> TargetFrame" where
  "restrict_to ul result =
     dropna_columns (select_rows (\<lambda>g. g \<in> set (map fst ul)) result)"

definition get_query_result ::
  "Env \<Rightarrow> string option \<Rightarrow> user_lists option \<Rightarrow> string list option \<Rightarrow> string list option
     \<Rightarrow> int option \<Rightarrow> error + Output" where
  "get_query_result env query user_lists tfs es size_limit =
     (case query of
        None \<Rightarrow> Inl (ValueError ''Need query or cache_path'')
      | Some q \<Rightarrow>
          (case parse_query env \<lparr>edges = es, tf_filter_list = tfs, target_filter_list = None\<rparr> q of
             Inl e \<Rightarrow> Inl e
           | Inr unfiltered \<Rightarrow>
               (let result = (case user_lists of None \<Rightarrow> unfiltered
                              | Some ul \<Rightarrow> restrict_to ul unfiltered)
                in if is_empty result then
                     Inl (QueryError ''Empty result (user list too restrictive).'')
                   else if (case size_limit of None \<Rightarrow> False | Some l \<Rightarrow> int (size_of result) > l) then
                     Inl (QueryError ''Result too large.'')
                   else
                     (let plain = map (\<lambda>r. \<lparr>TARGET_of = fst r, Annotation_of = None,
                                            User_List = None, User_List_Count = None,
                                            TF_Count = get_tf_count result r,
                                            cells_of = snd r\<rparr>) (rows result);
                          listed = (case user_lists of
                                      None \<Rightarrow> plain
                                    | Some ul \<Rightarrow>
                                        sort_key (\<lambda>r. (User_List_Count r, User_List r))
                                          (concat (map (\<lambda>u. map (\<lambda>r. r\<lparr>User_List := Some (fst (snd u)),
                                                               User_List_Count := Some (snd (snd u))\<rparr>)
                                                          (filter (\<lambda>r. TARGET_of r = fst u) plain))
                                                       ul)));
                          annotated = concat (map (with_annotation (db env)) listed)
                      in Inr \<lparr>out_columns = columns result,
                              out_rows = rev (sort_key TF_Count (rev annotated)),
                              metadata = get_metadata (db env) (map analysis_of (columns unfiltered)),
                              stats = get_stats unfiltered\<rparr>))))"

subsection \<open>A small database\<close>

text \<open>
  Two transcription factors with one analysis each: \<open>TF1\<close> binds \<open>A\<close>, \<open>B\<close> and
  \<open>C\<close>; \<open>TF2\<close> regulates \<open>B\<close>, \<open>C\<close> and \<open>D\<close> with the p-values 0.01, 0.2 and
  0.03. The tokens drawn are \<open>u\<close>, \<open>ux\<close>, \<open>uxx\<close> and so on; the sort behind
  \<open>sort_values\<close> is a stable one here.
\<close>

definition example_db :: Database where
  "example_db =
     \<lparr>annotation_tbl = [],
      analysis_tbl = [\<lparr>analysis_id = 1, tf_id = 10, tf_gene_id = ''TF1''\<rparr>,
                      \<lparr>analysis_id = 2, tf_id = 20, tf_gene_id = ''TF2''\<rparr>],
      analysisdata_tbl = [(1, ''EXPERIMENT_TYPE'', ''BINDING'')],
      interaction_tbl = [(''A'', 1), (''B'', 1), (''C'', 1), (''B'', 2), (''C'', 2), (''D'', 2)],
      regulation_tbl = [(2, ''B'', Some (1 / 100), Some 2), (2, ''C'', Some (1 / 5), Some 1),
                        (2, ''D'', Some (3 / 100), Some (- 1))],
      edgetype_tbl = [], edgedata_tbl = []\<rparr>"

definition example_env :: Env where
  "example_env =
     \<lparr>db = example_db,
      uuid4 = (\<lambda>n. CHR ''u'' # replicate n (CHR ''x'')),
      groupby_raises = (\<lambda>df. False),
      argsort = (\<lambda>xs. sort_key (\<lambda>i. xs ! i) [0 ..< length xs]),
      add_edges = (\<lambda>long es. None)\<rparr>"

definition no_args :: Args where
  "no_args = \<lparr>edges = None, tf_filter_list = None, target_filter_list = None\<rparr>"

definition tf1_frame :: TargetFrame where
  "tf1_frame = \<lparr>columns = [(''TF1'', Some 1, ''EDGE'')],
                 rows = [(''A'', [Some (Txt ''+'')]), (''B'', [Some (Txt ''+'')]),
                         (''C'', [Some (Txt ''+'')])],
                 included = True, filter_string = ''TF1''\<rparr>"

definition tf2_frame :: TargetFrame where
  "tf2_frame = \<lparr>columns = [(''TF2'', Some 2, ''Pvalue''), (''TF2'', Some 2, ''Log2FC'')],
                 rows = [(''B'', [Some (Num (1 / 100)), Some (Num 2)]),
                         (''C'', [Some (Num (1 / 5)), Some (Num 1)]),
                         (''D'', [Some (Num (3 / 100)), Some (Num (- 1))])],
                 included = True, filter_string = ''TF2''\<rparr>"

definition union_frame :: TargetFrame where
  "union_frame =
     \<lparr>columns = [(''TF2'', Some 2, ''Pvalue''), (''TF2'', Some 2, ''Log2FC''),
                 (''TF1'', Some 1, ''EDGE'')],
      rows = [(''A'', [None, None, Some (Txt ''+'')]),
              (''B'', [Some (Num (1 / 100)), Some (Num 2), Some (Txt ''+'')]),
              (''C'', [Some (Num (1 / 5)), Some (Num 1), Some (Txt ''+'')]),
              (''D'', [Some (Num (3 / 100)), Some (Num (- 1)), None])],
      included = True, filter_string = ''TF1 or TF2''\<rparr>"

text \<open>The same environment over a database without interaction and regulation rows.\<close>

definition empty_env :: Env where
  "empty_env = example_env\<lparr>db := example_db\<lparr>interaction_tbl := [], regulation_tbl := []\<rparr>\<rparr>"

subsection \<open>The table of the include flags, in the words of the specification\<close>







subsection \<open>The language of the grammar\<close>

text \<open>
  The texts that the grammar of lines 55 to 84 reads, character by character. Each token
  may have white space before it. A name is a run of name characters; a keyword is its
  word in any case; a quoted string runs from a quote to the next quote of its kind that no
  backslash escapes, on one line.
\<close>

definition all_white :: "string \<Rightarrow> bool" where
  "all_white w \<longleftrightarrow> list_all is_white w"

definition name_text :: "string \<Rightarrow> bool" where
  "name_text c \<longleftrightarrow> (\<exists>w n. c = w @ n \<and> all_white w \<and> n \<noteq> [] \<and> list_all is_name_char n)"

definition keyword_text :: "string \<Rightarrow> string \<Rightarrow> bool" where
  "keyword_text k c \<longleftrightarrow> (\<exists>w v. c = w @ v \<and> all_white w \<and> upper v = upper k)"

definition literal_text :: "string \<Rightarrow> string \<Rightarrow> bool" where
  "literal_text l c \<longleftrightarrow> (\<exists>w. c = w @ l \<and> all_white w)"

inductive quoted_body_text :: "char \<Rightarrow> string \<Rightarrow> bool" for q where
  closing: "quoted_body_text q []"
| plain: "c \<noteq> q \<Longrightarrow> c \<noteq> CHR 0x5C \<Longrightarrow> c \<noteq> CHR 0x0A \<Longrightarrow> c \<noteq> CHR 0x0D
          \<Longrightarrow> quoted_body_text q b \<Longrightarrow> quoted_body_text q (c # b)"
| escaped: "d \<noteq> CHR 0x0A \<Longrightarrow> quoted_body_text q b \<Longrightarrow> quoted_body_text q (CHR 0x5C # d # b)"

definition quoted_text :: "string \<Rightarrow> bool" where
  "quoted_text c \<longleftrightarrow>
     (\<exists>w q b. c = w @ q # b @ [q] \<and> all_white w \<and> (q = CHR 0x22 \<or> q = CHR 0x27)
              \<and> quoted_body_text q b)"

text \<open>
  A condition is \<open>key OP value\<close>; the body of a modifier is built from conditions with
  round brackets, \<open>not\<close>, \<open>and\<close> and \<open>or\<close>; a modifier is a body in
  square brackets.
\<close>

definition condition_text :: "string \<Rightarrow> bool" where
  "condition_text c \<longleftrightarrow>
     (\<exists>k oper v. c = k @ oper @ v \<and> (name_text k \<or> quoted_text k)
        \<and> list_ex (\<lambda>l. literal_text l oper) [''<'', ''='', ''>'', ''>='', ''<='', ''!='']
        \<and> (name_text v \<or> quoted_text v))"

inductive mod_expr_text :: "string \<Rightarrow> bool" where
  condition: "condition_text c \<Longrightarrow> mod_expr_text c"
| brackets: "literal_text ''('' l \<Longrightarrow> mod_expr_text c \<Longrightarrow> literal_text '')'' r
             \<Longrightarrow> mod_expr_text (l @ c @ r)"
| negation: "keyword_text ''not'' k \<Longrightarrow> mod_expr_text c \<Longrightarrow> mod_expr_text (k @ c)"
| conjunction: "mod_expr_text a \<Longrightarrow> keyword_text ''and'' k \<Longrightarrow> mod_expr_text b
                \<Longrightarrow> mod_expr_text (a @ k @ b)"
| disjunction: "mod_expr_text a \<Longrightarrow> keyword_text ''or'' k \<Longrightarrow> mod_expr_text b
                \<Longrightarrow> mod_expr_text (a @ k @ b)"

definition modifier_text :: "string \<Rightarrow> bool" where
  "modifier_text c \<longleftrightarrow>
     (\<exists>l m r. c = l @ m @ r \<and> literal_text ''['' l \<and> mod_expr_text m \<and> literal_text '']'' r)"

text \<open>
  An expression is built from gene names with round brackets, modifiers after an operand,
  \<open>not\<close>, \<open>and\<close> and \<open>or\<close>. A gene name is any name: the grammar does not
  keep the keywords apart. An input is well formed if it is an expression, followed by
  white space at most.
\<close>

inductive expr_text :: "string \<Rightarrow> bool" where
  gene: "name_text c \<Longrightarrow> expr_text c"
| brackets: "literal_text ''('' l \<Longrightarrow> expr_text c \<Longrightarrow> literal_text '')'' r
             \<Longrightarrow> expr_text (l @ c @ r)"
| modified: "expr_text c \<Longrightarrow> modifier_text m \<Longrightarrow> expr_text (c @ m)"
| negation: "keyword_text ''not'' k \<Longrightarrow> expr_text c \<Longrightarrow> expr_text (k @ c)"
| conjunction: "expr_text a \<Longrightarrow> keyword_text ''and'' k \<Longrightarrow> expr_text b
                \<Longrightarrow> expr_text (a @ k @ b)"
| disjunction: "expr_text a \<Longrightarrow> keyword_text ''or'' k \<Longrightarrow> expr_text b
                \<Longrightarrow> expr_text (a @ k @ b)"









text \<open>
  Properly nested brackets: a scan of the input with a stack of the brackets that are
  open. The characters that no name, keyword or comparison operator contains are the
  brackets, the quotes and the backslash.
\<close>

fun brackets :: "string \<Rightarrow> string \<Rightarrow> string option" where
  "brackets stack [] = Some stack"
| "brackets stack (c # cs) =
     (if c = CHR ''('' \<or> c = CHR ''['' then brackets (c # stack) cs
      else if c = CHR '')'' then
        (case stack of [] \<Rightarrow> None
         | x # rest \<Rightarrow> if x = CHR ''('' then brackets rest cs else None)
      else if c = CHR '']'' then
        (case stack of [] \<Rightarrow> None
         | x # rest \<Rightarrow> if x = CHR ''['' then brackets rest cs else None)
      else brackets stack cs)"



definition special :: "char \<Rightarrow> bool" where
  "special x \<longleftrightarrow> x \<in> set [CHR ''('', CHR '')'', CHR ''['', CHR '']'', CHR 0x22, CHR 0x27, CHR 0x5C]"

definition plain_text :: "string \<Rightarrow> bool" where
  "plain_text c \<longleftrightarrow> list_all (\<lambda>x. \<not> special x) c"


definition quote_marks :: "string \<Rightarrow> string" where
  "quote_marks s = filter (\<lambda>c. c = CHR 0x22 \<or> c = CHR 0x27) s"






section \<open>Properties\<close>

subsection \<open>The fetches of the small database\<close>

lemma fetch_tf1: "get_tf example_env no_args (Tok (Str ''TF1'')) 0 = Inr (tf1_frame, 0)"
  by code_simp


subsection \<open>Rows and columns of the joins\<close>














subsection \<open>AND and OR\<close>




subsection \<open>NOT\<close>

text \<open>
  Claim C9. For every evaluated operand, NOT flips the include flag and puts \<open>not\<close> and a
  blank before the filter string; the rows, the columns and the cells stay as they are.
\<close>

theorem not_flips_only_the_flag:
  assumes "get_tf env args (Tok x) n = Inr (succ, m)"
  shows "get_tf env args (Tok (Group [Str ''not'', x])) n = Inr (not_op succ, m)
         \<and> rows (not_op succ) = rows succ
         \<and> columns (not_op succ) = columns succ
         \<and> included (not_op succ) = (\<not> included succ)
         \<and> filter_string (not_op succ) = ''not '' @ filter_string succ"
  using assms by (simp add: not_op_def)

theorem not_flips_only_the_flag_witness:
  "get_tf example_env no_args (Tok (Str ''TF1'')) 0 = Inr (tf1_frame, 0)
   \<and> get_tf example_env no_args (Tok (Group [Str ''not'', Str ''TF1''])) 0
       = Inr (tf1_frame\<lparr>included := False, filter_string := ''not TF1''\<rparr>, 0)"
  using not_flips_only_the_flag [OF fetch_tf1] fetch_tf1
  by (simp add: not_op_def tf1_frame_def)

subsection \<open>The entry points\<close>

lemma parse_tf1: "parseString ''TF1'' = Parsed (Str ''TF1'')"
  by code_simp

lemma parse_union: "parse_query example_env no_args ''TF1 or TF2'' = Inr union_frame"
  by code_simp

text \<open>
  Claim C4. For every query that parses and whose evaluation gives a frame,
  \<open>parse_query\<close> raises the error \<open>empty query\<close> exactly when the frame is empty or
  its include flag is false; otherwise it returns the reordered frame.
\<close>

theorem parse_query_empty_iff:
  assumes "parseString query = Parsed parse"
    and "get_tf env args (Tok parse) 0 = Inr (result, n)"
  shows "(parse_query env args query = Inl (QueryError ''empty query'')
            \<longleftrightarrow> is_empty result \<or> \<not> included result)
         \<and> (\<not> (is_empty result \<or> \<not> included result)
            \<longrightarrow> parse_query env args query = Inr (reorder_data env result))"
  using assms by (simp add: parse_query_def)

theorem parse_query_empty_iff_witness:
  "parseString ''TF1'' = Parsed (Str ''TF1'')
   \<and> get_tf example_env no_args (Tok (Str ''TF1'')) 0 = Inr (tf1_frame, 0)
   \<and> \<not> (is_empty tf1_frame \<or> \<not> included tf1_frame)
   \<and> parse_query example_env no_args ''TF1'' = Inr (reorder_data example_env tf1_frame)"
proof -
  have ne: "\<not> (is_empty tf1_frame \<or> \<not> included tf1_frame)"
    by (simp add: is_empty_def tf1_frame_def)
  from parse_query_empty_iff [OF parse_tf1 fetch_tf1] ne parse_tf1 fetch_tf1
  show ?thesis by blast
qed

text \<open>
  Claim C10. When the query has been evaluated and none of the genes of the result is in
  the user's list, \<open>get_query_result\<close> fails with the error \<open>Empty result (user list
  too restrictive).\<close>, whatever the size limit is: the test comes before the size limit.
  The error differs from the two other query errors.
\<close>

theorem user_list_too_restrictive:
  assumes "parse_query env \<lparr>edges = es, tf_filter_list = tfs, target_filter_list = None\<rparr> q
             = Inr unfiltered"
    and "set (index unfiltered) \<inter> set (map fst ul) = {}"
  shows "get_query_result env (Some q) (Some ul) tfs es size_limit
           = Inl (QueryError ''Empty result (user list too restrictive).'')
         \<and> QueryError ''Empty result (user list too restrictive).'' \<noteq> QueryError ''Result too large.''
         \<and> QueryError ''Empty result (user list too restrictive).'' \<noteq> QueryError ''empty query''"
proof -
  have "rows (restrict_to ul unfiltered) = []"
    using assms(2)
    by (auto simp: restrict_to_def dropna_columns_def take_columns_def select_rows_def
        index_def filter_empty_conv)
  then have "is_empty (restrict_to ul unfiltered)"
    by (simp add: is_empty_def)
  then show ?thesis
    using assms(1) by (simp add: get_query_result_def)
qed

theorem user_list_too_restrictive_witness:
  "parse_query example_env \<lparr>edges = None, tf_filter_list = None, target_filter_list = None\<rparr>
       ''TF1 or TF2'' = Inr union_frame
   \<and> set (index union_frame) \<inter> set (map fst [(''Z'', ''mine'', 1::nat)]) = {}
   \<and> get_query_result example_env (Some ''TF1 or TF2'') (Some [(''Z'', ''mine'', 1)]) None None
        (Some (- 1)) = Inl (QueryError ''Empty result (user list too restrictive).'')"
proof -
  have p: "parse_query example_env \<lparr>edges = None, tf_filter_list = None, target_filter_list = None\<rparr>
       ''TF1 or TF2'' = Inr union_frame"
    using parse_union by (simp add: no_args_def)
  have d: "set (index union_frame) \<inter> set (map fst [(''Z'', ''mine'', 1::nat)]) = {}"
    by (simp add: union_frame_def index_def)
  from user_list_too_restrictive [OF p d, of "Some (- 1)"] p d
  show ?thesis by blast
qed

text \<open>
  Claim C2. The size limit is compared with the size of the frame after the restriction to
  the user's genes. The query \<open>TF1 or TF2\<close> gives 12 cells; with the user list \<open>B\<close> the
  restricted frame has 3 cells, and with the limit 5 the call returns the row of \<open>B\<close>.
  Without the user list the same limit fails the call.
\<close>

theorem size_limit_on_filtered_frame:
  "parse_query example_env no_args ''TF1 or TF2'' = Inr union_frame
   \<and> size_of union_frame = 12
   \<and> size_of (restrict_to [(''B'', ''mine'', 1)] union_frame) = 3
   \<and> (case get_query_result example_env (Some ''TF1 or TF2'') (Some [(''B'', ''mine'', 1)])
              None None (Some 5) of
         Inl e \<Rightarrow> False
       | Inr out \<Rightarrow> map TARGET_of (out_rows out) = [''B''])
   \<and> get_query_result example_env (Some ''TF1 or TF2'') None None None (Some 5)
        = Inl (QueryError ''Result too large.'')"
  by code_simp

subsection \<open>A fetch that finds no data\<close>

text \<open>
  Claim C5 as stated, that no leaf fetch ever raises, fails for the keywords: on a
  database without interaction rows \<open>oralltfs\<close> raises \<open>ValueError\<close> (line 409).
\<close>

theorem keyword_fetch_raises_counterexample:
  "fetch empty_env no_args ''oralltfs'' = Inl (ValueError ''No data in database.'')"
  by code_simp

text \<open>
  Claim C5, amended. A gene-name fetch that finds no interaction row returns the empty
  frame of line 354: no rows, the single column \<open>(query, NaN, 'EDGE')\<close>, included,
  with the query as filter string. A keyword fetch (\<open>andalltfs\<close>, \<open>oralltfs\<close>,
  \<open>multitype\<close>) whose merged frame has no row raises
  \<open>ValueError("No data in database.")\<close>.
\<close>

theorem fetch_without_data:
  "(lower query \<notin> set [''andalltfs'', ''oralltfs'', ''multitype'']
      \<and> tf_interactions env args query = []
    \<longrightarrow> fetch env args query = Inr (placeholder query)
        \<and> rows (placeholder query) = [] \<and> columns (placeholder query) = [(query, None, ''EDGE'')]
        \<and> included (placeholder query) \<and> filter_string (placeholder query) = query)
   \<and> (lower query \<in> set [''andalltfs'', ''oralltfs'', ''multitype'']
      \<and> all_tf_rows env args (lower query) = Inr []
    \<longrightarrow> fetch env args query = Inl (ValueError ''No data in database.''))"
  by (simp add: fetch_def get_tf_data_def get_all_tf_def placeholder_def new_frame_def Let_def)

theorem fetch_without_data_witness:
  "lower ''nope'' \<notin> set [''andalltfs'', ''oralltfs'', ''multitype'']
   \<and> tf_interactions example_env no_args ''nope'' = []
   \<and> fetch example_env no_args ''nope'' = Inr (placeholder ''nope'')
   \<and> lower ''AndAllTFs'' \<in> set [''andalltfs'', ''oralltfs'', ''multitype'']
   \<and> all_tf_rows empty_env no_args (lower ''AndAllTFs'') = Inr []
   \<and> fetch empty_env no_args ''AndAllTFs'' = Inl (ValueError ''No data in database.'')"
proof -
  have a: "lower ''nope'' \<notin> set [''andalltfs'', ''oralltfs'', ''multitype'']"
    by code_simp
  have b: "tf_interactions example_env no_args ''nope'' = []"
    by code_simp
  have c: "lower ''AndAllTFs'' \<in> set [''andalltfs'', ''oralltfs'', ''multitype'']"
    by code_simp
  have d: "all_tf_rows empty_env no_args (lower ''AndAllTFs'') = Inr []"
    by code_simp
  from fetch_without_data [of "''nope''" example_env no_args]
       fetch_without_data [of "''AndAllTFs''" empty_env no_args] a b c d
  show ?thesis by blast
qed

subsection \<open>A comparison value that is not a number\<close>

lemma sequence_all_Inl:
  "xs \<noteq> [] \<Longrightarrow> (\<And>x. x \<in> set xs \<Longrightarrow> f x = Inl e) \<Longrightarrow> sequence (map f xs) = Inl e"
  by (cases xs) auto

text \<open>
  Claim C3 as stated, that a value which does not coerce gives an all-false mask and does
  not abort the query, fails: \<open>float('abc')\<close> raises, and \<open>TF2[PVALUE<abc]\<close> ends
  in that \<open>ValueError\<close>.
\<close>

theorem comparator_value_error_counterexample:
  "float ''abc'' = None
   \<and> parse_query example_env no_args ''TF2[PVALUE<abc]''
       = Inl (ValueError ''could not convert string to float'')"
  by code_simp

text \<open>
  Claim C3, amended. For every frame and every PVALUE or FC condition whose value does not
  coerce to a number, the comparator raises \<open>ValueError\<close> on the first column group
  (line 123 is outside the \<open>try\<close>), neither \<open>get_mod\<close> nor the modifier step
  catches it, and the query is aborted. Only a frame without any column group gives a mask,
  all false, since the comparator is never run.
\<close>

theorem comparator_value_error:
  assumes "float value = None"
    and "re_match_word ''pvalue'' key \<or> re_match_word ''fc'' key"
  shows "get_mod (db env) df (Tok (Mod key oper value)) =
           (if groups df = []
            then Inr (MaskV (replicate (length (rows df)) (replicate (length (columns df)) False)))
            else Inl (ValueError ''could not convert string to float''))
         \<and> (groups df \<noteq> [] \<longrightarrow>
              apply_modifier env df (Modifier [Mod key oper value])
                = Inl (ValueError ''could not convert string to float''))"
proof -
  have k: "apply_comp_mod df k a oper value = Inl (ValueError ''could not convert string to float'')"
    for k a
    using assms(1) by (simp add: apply_comp_mod_def)
  have g: "groupby_apply df (\<lambda>k. apply_comp_mod df k a oper value) =
           (if groups df = []
            then Inr (replicate (length (rows df)) (replicate (length (columns df)) False))
            else Inl (ValueError ''could not convert string to float''))" for a
  proof (cases "groups df = []")
    case True
    then show ?thesis
      by (simp add: groupby_apply_def map_replicate_const)
  next
    case False
    then have "sequence (map (\<lambda>k. apply_comp_mod df k a oper value) (groups df))
                 = Inl (ValueError ''could not convert string to float'')"
      using k by (intro sequence_all_Inl) auto
    with False show ?thesis
      by (simp add: groupby_apply_def)
  qed
  have m: "get_mod_key (db env) df key oper value =
           (if groups df = []
            then Inr (replicate (length (rows df)) (replicate (length (columns df)) False))
            else Inl (ValueError ''could not convert string to float''))"
    using assms(2) g by (auto simp: get_mod_key_def)
  show ?thesis
    using m by (simp add: apply_modifier_def)
qed

theorem comparator_value_error_witness:
  "float ''0.05x'' = None
   \<and> (re_match_word ''pvalue'' ''PValue'' \<or> re_match_word ''fc'' ''PValue'')
   \<and> groups tf2_frame \<noteq> []
   \<and> apply_modifier example_env tf2_frame (Modifier [Mod ''PValue'' ''<'' ''0.05x''])
        = Inl (ValueError ''could not convert string to float'')"
proof -
  have a: "float ''0.05x'' = None" by code_simp
  have b: "re_match_word ''pvalue'' ''PValue'' \<or> re_match_word ''fc'' ''PValue''" by code_simp
  have c: "groups tf2_frame \<noteq> []" by code_simp
  from comparator_value_error [OF a b, of example_env tf2_frame "''<''"] a b c
  show ?thesis by blast
qed

subsection \<open>The grammar and the whole input\<close>







lemma length_upper: "length (upper s) = length s"
  by (simp add: upper_def)






































lemma name_text_nonempty: "name_text c \<Longrightarrow> c \<noteq> []"
  by (auto simp: name_text_def)





lemma expr_text_nonempty: "expr_text c \<Longrightarrow> c \<noteq> []"
  by (induction rule: expr_text.induct) (auto dest: name_text_nonempty)






















lemma special_not_white: "special x \<Longrightarrow> \<not> is_white x"
  by (auto simp: special_def is_white_def)




lemma all_white_plain: "all_white w \<Longrightarrow> plain_text w"
  by (auto simp: all_white_def plain_text_def list_all_iff dest: special_not_white)
























lemma quote_marks_append: "quote_marks (a @ b) = quote_marks a @ quote_marks b"
  by (simp add: quote_marks_def)

lemma plain_text_quote_marks: "plain_text c \<Longrightarrow> quote_marks c = []"
  by (auto simp: plain_text_def quote_marks_def list_all_iff special_def filter_empty_conv)

lemma all_white_quote_marks: "all_white w \<Longrightarrow> quote_marks w = []"
  by (rule plain_text_quote_marks[OF all_white_plain])

lemma literal_text_quote_marks:
  "literal_text l c \<Longrightarrow> quote_marks l = [] \<Longrightarrow> quote_marks c = []"
  by (auto simp: literal_text_def quote_marks_append all_white_quote_marks)

















































end
